theory Spec2Isabelle
  imports Complex_Main
begin

section \<open>Exceptions and outcomes\<close>

text \<open>
  \<open>raiseAnError\<close> is called in \<open>ROM.py\<close> with the exception class and a message.
  Every raise site of the modelled methods has its own constructor; \<open>exceptionClass\<close>
  gives the Python class that site passes to \<open>raiseAnError\<close>. \<open>Collaborator\<close>
  stands for whatever an object outside \<open>ROM.py\<close> raises.
\<close>

datatype exc_class =
  RuntimeError | IOError | IndexError | KeyError | AttributeError | AssertionError | OtherException

datatype error =
    NotLoaded
  | NotTrained
  | NotSynchronized
  | PivotNotPresent
  | PivotNotAList
  | TrainingSetEmpty
  | IndexOutOfRange
  | MissingKey string
  | NoAttribute string
  | AssertionFailed
  | Collaborator string

fun exceptionClass :: "error \<Rightarrow> exc_class" where
  "exceptionClass NotLoaded = RuntimeError"
| "exceptionClass NotTrained = RuntimeError"
| "exceptionClass NotSynchronized = IOError"
| "exceptionClass PivotNotPresent = IOError"
| "exceptionClass PivotNotAList = IOError"
| "exceptionClass TrainingSetEmpty = IOError"
| "exceptionClass IndexOutOfRange = IndexError"
| "exceptionClass (MissingKey k) = KeyError"
| "exceptionClass (NoAttribute a) = AttributeError"
| "exceptionClass AssertionFailed = AssertionError"
| "exceptionClass (Collaborator m) = OtherException"

text \<open>
  A method that mutates its object either returns, leaving the object in a new state, or
  raises, leaving the object in the state reached at the raise.
\<close>

datatype 's outcome = Returned 's | Raised error 's

fun stateOf :: "'s outcome \<Rightarrow> 's" where
  "stateOf (Returned s) = s"
| "stateOf (Raised e s) = s"

fun raised :: "'s outcome \<Rightarrow> error option" where
  "raised (Returned s) = None"
| "raised (Raised e s) = Some e"

section \<open>Data\<close>

text \<open>
  A value of a training set is a flat numeric array or a Python \<open>list\<close> holding one
  sequence per realization. A dictionary is an association list in insertion order.
\<close>

datatype pyval = NdArray "real list" | PyList "real list list"

type_synonym dataset = "(string \<times> pyval) list"

fun isList :: "pyval \<Rightarrow> bool" where
  "isList (PyList xss) = True"
| "isList (NdArray xs) = False"

text \<open>A value returned by a backend's \<open>run\<close>: a scalar or a one-dimensional array.\<close>

datatype npval = Scalar real | Array "real list"

type_synonym results = "(string \<times> npval) list"

fun ravel :: "npval \<Rightarrow> real list" where
  "ravel (Scalar x) = [x]"
| "ravel (Array xs) = xs"

definition np_append :: "npval \<Rightarrow> npval \<Rightarrow> npval" where
  "np_append a b = Array (ravel a @ ravel b)"

definition np_atleast_1d :: "npval \<Rightarrow> npval" where
  "np_atleast_1d v = Array (ravel v)"

text \<open>
  A data object (\<open>PointSet\<close>, \<open>HistorySet\<close>, \<open>DataSet\<close>) is defined outside
  \<open>ROM.py\<close>. It is represented by what the modelled methods ask of it: its \<open>type\<close>,
  the answer of \<open>checkIndexAlignment\<close> for a given index name, and the dictionary that
  the inherited \<open>_inputToInternal\<close> converts it to.
\<close>

record dataobj =
  do_type :: string
  checkIndexAlignment :: "string \<Rightarrow> bool"
  do_internal :: dataset

type_synonym assembler = "(string \<times> string list) list"

section \<open>The ROM object\<close>

text \<open>
  The attributes of \<open>ROM\<close> that \<open>train\<close>, \<open>evaluate\<close>, \<open>reset\<close>,
  \<open>__getstate__\<close> and \<open>__setstate__\<close> read or write. \<open>'b\<close> is the type of the
  objects held in \<open>supervisedContainer\<close> (a backend instance or a segmentation wrapper).
  \<open>__init__\<close> does not create \<open>trainingSet\<close>: the attribute is absent (\<open>None\<close>)
  until \<open>train\<close> assigns it.
\<close>

record 'b rom =
  subType :: string
  amITrained :: bool
  pickled :: bool
  pivotParameterId :: string
  canHandleDynamicData :: bool
  isADynamicModel :: bool
  supervisedContainer :: "'b list"
  historySteps :: "real list"
  segment :: bool
  seed :: "int option"
  trainingSet :: "dataset option"
  assemblerDict :: assembler

text \<open>
  The collaborators of \<open>ROM\<close> that live outside \<open>ROM.py\<close>: the methods of the held
  objects, the factory, \<open>mathUtils.historySnapShoots\<close> and the alias system of the base
  class. They are parameters of the model. The \<open>train\<close> of a held object and
  \<open>historySnapShoots\<close> may raise; \<open>run\<close> may raise and is taken to leave its object
  as it is; the others are taken to return.
\<close>

record 'b collaborators =
  setAssembledObjects :: "assembler \<Rightarrow> 'b \<Rightarrow> 'b"
  b_train :: "dataset \<Rightarrow> 'b \<Rightarrow> 'b outcome"
  b_run :: "dataset \<Rightarrow> 'b \<Rightarrow> error + results"
  b_reset :: "'b \<Rightarrow> 'b"
  returnInstance :: "string \<Rightarrow> error + 'b"
  historySnapShoots :: "dataset \<Rightarrow> nat \<Rightarrow> error + dataset list"
  replaceVariablesNamesWithAliasSystem :: "dataset \<Rightarrow> dataset"

text \<open>
  What \<open>train\<close> and \<open>evaluate\<close> receive, by its Python type: a \<open>dict\<close> or a
  data object; \<open>train\<close> also accepts another \<open>ROM\<close>. \<open>_inputToInternal\<close>
  (inherited) hands a \<open>dict\<close> back as it is.
\<close>

datatype datain = DictIn dataset | DataObjIn dataobj

datatype 'b train_arg = RomArg "'b rom" | DataArg datain

fun inputToInternal :: "datain \<Rightarrow> dataset" where
  "inputToInternal (DictIn d) = d"
| "inputToInternal (DataObjIn obj) = do_internal obj"

section \<open>reset\<close>

definition reset :: "'b collaborators \<Rightarrow> 'b rom \<Rightarrow> 'b rom" where
  "reset c self =
     self\<lparr>supervisedContainer := map (b_reset c) (supervisedContainer self),
          amITrained := False\<rparr>"

section \<open>train\<close>

text \<open>
  The loop \<open>for ts in range(len(self.historySteps)): self.supervisedContainer[ts].train(newTrainingSet[ts])\<close>,
  over the list of indices still to visit.
\<close>

fun trainChain :: "'b collaborators \<Rightarrow> dataset list \<Rightarrow> nat list \<Rightarrow> 'b list \<Rightarrow> 'b list outcome" where
  "trainChain c slices [] container = Returned container"
| "trainChain c slices (ts # rest) container =
     (if ts < length container \<and> ts < length slices then
        (case b_train c (slices ! ts) (container ! ts) of
           Returned b' \<Rightarrow> trainChain c slices rest (container[ts := b'])
         | Raised e b' \<Rightarrow> Raised e (container[ts := b']))
      else Raised IndexOutOfRange container)"

text \<open>Lifting the outcome of a call on the held objects to the outcome of the method of \<open>ROM\<close>.\<close>

fun withContainer :: "'b rom \<Rightarrow> 'b list outcome \<Rightarrow> 'b rom outcome" where
  "withContainer self (Returned bs) = Returned (self\<lparr>supervisedContainer := bs, amITrained := True\<rparr>)"
| "withContainer self (Raised e bs) = Raised e (self\<lparr>supervisedContainer := bs\<rparr>)"

text \<open>\<open>self.supervisedContainer[i].train(data)\<close> for one index \<open>i\<close> of a non-empty container.\<close>

definition trainAt :: "'b collaborators \<Rightarrow> nat \<Rightarrow> dataset \<Rightarrow> 'b list \<Rightarrow> 'b list outcome" where
  "trainAt c i data container =
     (case b_train c data (container ! i) of
        Returned b' \<Rightarrow> Returned (container[i := b'])
      | Raised e b' \<Rightarrow> Raised e (container[i := b']))"

text \<open>The branch of \<open>train\<close> for a training set with a \<open>list\<close> value (lines 332 to 360).\<close>

definition trainTimeDependent :: "'b collaborators \<Rightarrow> 'b rom \<Rightarrow> dataset \<Rightarrow> 'b rom outcome" where
  "trainTimeDependent c self0 data =
     (let self = self0\<lparr>isADynamicModel := True\<rparr> in
      if pivotParameterId self \<notin> set (map fst data) then Raised PivotNotPresent self
      else case map_of data (pivotParameterId self) of
        None \<Rightarrow> Raised PivotNotPresent self
      | Some (NdArray xs) \<Rightarrow> Raised PivotNotAList self
      | Some (PyList xss) \<Rightarrow>
          if xss = [] then Raised IndexOutOfRange self
          else let self1 = self\<lparr>historySteps := last xss\<rparr>;
                   n = length (historySteps self1) in
            if n = 0 then Raised TrainingSetEmpty self1
            else if canHandleDynamicData self1 then
              withContainer self1
                (trainAt c (length (supervisedContainer self1) - 1) data (supervisedContainer self1))
            else case historySnapShoots c data n of
              Inl e \<Rightarrow> Raised e self1
            | Inr newTrainingSet \<Rightarrow>
                let originalROM = supervisedContainer self1 ! 0 in
                withContainer self1
                  (trainChain c newTrainingSet [0..<n] (replicate n originalROM)))"

text \<open>
  The test of lines 317 and 318: the argument is no \<open>dict\<close>, its type is
  \<open>HistorySet\<close>, and its histories are not aligned on the pivot parameter.
\<close>

definition notSynchronized :: "string \<Rightarrow> datain \<Rightarrow> bool" where
  "notSynchronized pivot given =
     (case given of
        DictIn d \<Rightarrow> False
      | DataObjIn obj \<Rightarrow> do_type obj = ''HistorySet'' \<and> \<not> checkIndexAlignment obj pivot)"

definition train :: "'b collaborators \<Rightarrow> 'b rom \<Rightarrow> 'b train_arg \<Rightarrow> 'b rom outcome" where
  "train c self arg =
     (case arg of
        RomArg other \<Rightarrow>
          (case trainingSet other of
             None \<Rightarrow> Raised (NoAttribute ''trainingSet'') self
           | Some copied \<Rightarrow>
               Returned (self\<lparr>trainingSet := Some copied,
                              amITrained := amITrained other,
                              supervisedContainer := supervisedContainer other,
                              seed := seed other\<rparr>))
      | DataArg given \<Rightarrow>
        if notSynchronized (pivotParameterId self) given
        then Raised NotSynchronized self
        else
          let data = replaceVariablesNamesWithAliasSystem c (inputToInternal given);
              self1 = self\<lparr>trainingSet := Some data\<rparr> in
          if supervisedContainer self1 = [] then Raised IndexOutOfRange self1
          else
            let self2 = self1\<lparr>supervisedContainer :=
                          (supervisedContainer self1)
                            [0 := setAssembledObjects c (assemblerDict self1) (supervisedContainer self1 ! 0)]\<rparr> in
            if segment self2 then
              withContainer self2 (trainAt c 0 data (supervisedContainer self2))
            else if list_ex isList (map snd data) then
              trainTimeDependent c self2 data
            else
              withContainer self2 (trainAt c 0 data (supervisedContainer self2)))"

section \<open>evaluate\<close>

text \<open>
  One pass of the loop body of \<open>evaluate\<close> (lines 406 to 411): the first non-empty
  slice fills the empty dictionary, every later slice is appended key by key, and a key
  that the slice lacks raises \<open>KeyError\<close>.
\<close>

fun appendSlice :: "results \<Rightarrow> results \<Rightarrow> results \<Rightarrow> error + results" where
  "appendSlice sliceEvaluation [] done = Inr (rev done)"
| "appendSlice sliceEvaluation ((key, v) # rest) done =
     (case map_of sliceEvaluation key of
        None \<Rightarrow> Inl (MissingKey key)
      | Some w \<Rightarrow> appendSlice sliceEvaluation rest ((key, np_append v w) # done))"

fun evaluateChain :: "'b collaborators \<Rightarrow> dataset \<Rightarrow> 'b list \<Rightarrow> results \<Rightarrow> error + results" where
  "evaluateChain c request [] resultsDict = Inr resultsDict"
| "evaluateChain c request (rom # roms) resultsDict =
     (case b_run c request rom of
        Inl e \<Rightarrow> Inl e
      | Inr sliceEvaluation \<Rightarrow>
          if resultsDict = [] then evaluateChain c request roms sliceEvaluation
          else (case appendSlice sliceEvaluation resultsDict [] of
                  Inl e \<Rightarrow> Inl e
                | Inr resultsDict' \<Rightarrow> evaluateChain c request roms resultsDict'))"

definition evaluate :: "'b collaborators \<Rightarrow> 'b rom \<Rightarrow> datain \<Rightarrow> error + results" where
  "evaluate c self arg =
     (let request = inputToInternal arg in
      if pickled self then Inl NotLoaded
      else if \<not> amITrained self then Inl NotTrained
      else
        (case (if segment self then
                 (case supervisedContainer self of
                    [] \<Rightarrow> Inl IndexOutOfRange
                  | rom # roms \<Rightarrow> b_run c request rom)
               else evaluateChain c request (supervisedContainer self) []) of
           Inl e \<Rightarrow> Inl e
         | Inr resultsDict \<Rightarrow> Inr (map (\<lambda>(k, v). (k, np_atleast_1d v)) resultsDict)))"

section \<open>Serialization\<close>

text \<open>
  The dictionary that \<open>__getstate__\<close> returns and \<open>__setstate__\<close> receives: the
  attributes of the object, where the two keys that \<open>__getstate__\<close> removes may be
  absent (\<open>None\<close>).
\<close>

record 'b state_dict =
  d_subType :: string
  d_amITrained :: bool
  d_pickled :: bool
  d_pivotParameterId :: string
  d_canHandleDynamicData :: bool
  d_isADynamicModel :: bool
  d_supervisedContainer :: "'b list option"
  d_historySteps :: "real list"
  d_segment :: bool
  d_seed :: "int option"
  d_trainingSet :: "dataset option"
  d_assemblerDict :: "assembler option"

text \<open>\<open>copy.copy(self.__dict__)\<close>: every attribute is present.\<close>

definition dictOf :: "'b rom \<Rightarrow> 'b state_dict" where
  "dictOf self =
     \<lparr>d_subType = subType self, d_amITrained = amITrained self, d_pickled = pickled self,
      d_pivotParameterId = pivotParameterId self,
      d_canHandleDynamicData = canHandleDynamicData self,
      d_isADynamicModel = isADynamicModel self,
      d_supervisedContainer = Some (supervisedContainer self),
      d_historySteps = historySteps self, d_segment = segment self, d_seed = seed self,
      d_trainingSet = trainingSet self, d_assemblerDict = Some (assemblerDict self)\<rparr>"

definition getstate :: "'b rom \<Rightarrow> 'b state_dict" where
  "getstate self =
     (let d = dictOf self;
          d1 = (if \<not> amITrained self then d\<lparr>d_supervisedContainer := None\<rparr> else d)
      in d1\<lparr>d_assemblerDict := None\<rparr>)"

text \<open>
  \<open>__setstate__\<close> on the blank object that unpickling creates. A dictionary with
  \<open>amITrained\<close> true and no \<open>supervisedContainer\<close> key does not come from
  \<open>__getstate__\<close>; Python would leave the attribute unset and raise at its first
  read, which is reported here as \<open>MissingKey\<close>.
\<close>

definition setstate :: "'b collaborators \<Rightarrow> 'b state_dict \<Rightarrow> error + 'b rom" where
  "setstate c d =
     (case (if \<not> d_amITrained d then
              (case returnInstance c (d_subType d) of
                 Inl e \<Rightarrow> Inl e
               | Inr modelInstance \<Rightarrow> Inr [modelInstance])
            else (case d_supervisedContainer d of
                    None \<Rightarrow> Inl (MissingKey ''supervisedContainer'')
                  | Some container \<Rightarrow> Inr container)) of
        Inl e \<Rightarrow> Inl e
      | Inr container \<Rightarrow>
          Inr \<lparr>subType = d_subType d, amITrained = d_amITrained d, pickled = d_pickled d,
               pivotParameterId = d_pivotParameterId d,
               canHandleDynamicData = d_canHandleDynamicData d,
               isADynamicModel = d_isADynamicModel d,
               supervisedContainer = container,
               historySteps = d_historySteps d, segment = d_segment d, seed = d_seed d,
               trainingSet = d_trainingSet d, assemblerDict = []\<rparr>)"

section \<open>An example backend\<close>

text \<open>
  A backend with which the collaborators can be instantiated: it stores the assembled
  objects and the training sets it has received since its construction or last reset,
  and its \<open>run\<close> answers with the flat arrays of the last of them, raising when there is
  none. The example slicing takes entry \<open>t\<close> of every realization and raises when a
  realization has another length than the number of steps.
\<close>

record backend =
  assembled :: assembler
  fitted :: "dataset list"

fun answer :: "dataset \<Rightarrow> results" where
  "answer [] = []"
| "answer ((k, NdArray xs) # rest) = (k, Array xs) # answer rest"
| "answer ((k, PyList xss) # rest) = answer rest"

fun sliceAt :: "nat \<Rightarrow> pyval \<Rightarrow> pyval" where
  "sliceAt t (NdArray xs) = NdArray xs"
| "sliceAt t (PyList xss) = NdArray (map (\<lambda>xs. xs ! t) xss)"

fun aligned :: "nat \<Rightarrow> pyval \<Rightarrow> bool" where
  "aligned n (NdArray xs) = True"
| "aligned n (PyList xss) = list_all (\<lambda>xs. length xs = n) xss"

definition exampleSnapShoots :: "dataset \<Rightarrow> nat \<Rightarrow> error + dataset list" where
  "exampleSnapShoots data n =
     (if list_all (\<lambda>(k, v). aligned n v) data
      then Inr (map (\<lambda>t. map (\<lambda>(k, v). (k, sliceAt t v)) data) [0..<n])
      else Inl (Collaborator ''historySnapShoots''))"

definition exampleBackend :: backend where
  "exampleBackend = \<lparr>assembled = [], fitted = []\<rparr>"

definition exampleCollaborators :: "backend collaborators" where
  "exampleCollaborators =
     \<lparr>setAssembledObjects = (\<lambda>a b. b\<lparr>assembled := a\<rparr>),
      b_train = (\<lambda>data b. Returned (b\<lparr>fitted := fitted b @ [data]\<rparr>)),
      b_run = (\<lambda>request b. if fitted b = [] then Inl (Collaborator ''run'')
                             else Inr (answer (last (fitted b)))),
      b_reset = (\<lambda>b. b\<lparr>fitted := []\<rparr>),
      returnInstance = (\<lambda>name. Inr exampleBackend),
      historySnapShoots = exampleSnapShoots,
      replaceVariablesNamesWithAliasSystem = (\<lambda>data. data)\<rparr>"

definition exampleROM :: "backend rom" where
  "exampleROM =
     \<lparr>subType = ''LinearDiscriminantAnalysisClassifier'', amITrained = False, pickled = False,
      pivotParameterId = ''time'', canHandleDynamicData = False, isADynamicModel = False,
      supervisedContainer = [exampleBackend], historySteps = [], segment = False,
      seed = None, trainingSet = None, assemblerDict = []\<rparr>"

text \<open>
  Example training sets: a static one, a time-dependent one with two realizations of two
  steps each, one without the pivot parameter, one whose pivot parameter is a flat array,
  and one whose last realization has no step.
\<close>

definition staticSet :: dataset where
  "staticSet = [(''x'', NdArray [5, 6]), (''y'', NdArray [7, 8])]"

definition dynamicSet :: dataset where
  "dynamicSet =
     [(''time'', PyList [[0, 1], [0, 1]]), (''x'', NdArray [5, 6]), (''y'', PyList [[1, 2], [3, 4]])]"

definition noPivotSet :: dataset where
  "noPivotSet = [(''x'', NdArray [5, 6]), (''y'', PyList [[1, 2], [3, 4]])]"

definition flatPivotSet :: dataset where
  "flatPivotSet = [(''time'', NdArray [0, 1]), (''y'', PyList [[1, 2], [3, 4]])]"

definition emptyPivotSet :: dataset where
  "emptyPivotSet = [(''time'', PyList [[0, 1], []]), (''y'', PyList [[1, 2], []])]"

text \<open>The example ROM after training on the time-dependent example set.\<close>

definition exampleChain :: "backend rom" where
  "exampleChain = stateOf (train exampleCollaborators exampleROM (DataArg (DictIn dynamicSet)))"

text \<open>The example ROM after training on the static example set.\<close>

definition exampleStatic :: "backend rom" where
  "exampleStatic = stateOf (train exampleCollaborators exampleROM (DataArg (DictIn staticSet)))"

section \<open>The linear discriminant analysis classifier\<close>

text \<open>
  The sub-nodes that \<open>getInputSpecification\<close> of
  \<open>LinearDiscriminantAnalysisClassifier\<close> adds (lines 68 to 96), each with its name,
  content type and the \<open>default\<close> keyword it passes. \<open>declared_default\<close> is
  \<open>None\<close> for a node declared without the keyword; \<open>default=None\<close> is the declared
  default \<open>PyNone\<close>.
\<close>

datatype content_type =
  StringType | FloatOrStringType | FloatListType | IntegerType | BoolType | FloatType

datatype param_value =
  PyNone | PyStr string | PyBool bool | PyFloat real | PyInt int | PyFloatList "real list"

record sub_spec =
  sub_name :: string
  contentType :: content_type
  declared_default :: "param_value option"

definition ldaSubs :: "sub_spec list" where
  "ldaSubs =
     [\<lparr>sub_name = ''solver'', contentType = StringType, declared_default = Some (PyStr ''svd'')\<rparr>,
      \<lparr>sub_name = ''Shrinkage'', contentType = FloatOrStringType, declared_default = Some PyNone\<rparr>,
      \<lparr>sub_name = ''priors'', contentType = FloatListType, declared_default = Some PyNone\<rparr>,
      \<lparr>sub_name = ''n_components'', contentType = IntegerType, declared_default = Some PyNone\<rparr>,
      \<lparr>sub_name = ''store_covariance'', contentType = BoolType, declared_default = Some (PyBool False)\<rparr>,
      \<lparr>sub_name = ''tol'', contentType = FloatType, declared_default = Some (PyFloat (1 / 10000))\<rparr>,
      \<lparr>sub_name = ''covariance_estimator'', contentType = IntegerType, declared_default = Some PyNone\<rparr>]"

text \<open>
  \<open>getInputSpecification\<close> adds its sub-nodes to the specification inherited from
  \<open>ScikitLearnBase\<close>, which is a parameter.
\<close>

definition getInputSpecification :: "sub_spec list \<Rightarrow> sub_spec list" where
  "getInputSpecification inherited = inherited @ ldaSubs"

text \<open>The names that \<open>_handleInput\<close> passes to \<open>findNodesAndExtractValues\<close> (lines 106, 107).\<close>

definition ldaParameters :: "string list" where
  "ldaParameters =
     [''solver'', ''Shrinkage'', ''priors'', ''n_components'', ''store_covariance'', ''tol'',
      ''covariance_estimator'']"

text \<open>
  A parsed input: the specification it was parsed against and its sub-nodes, each with its
  name and value, in document order.
\<close>

record param_input =
  parsedAgainst :: "sub_spec list"
  subparts :: "(string \<times> param_value) list"

text \<open>
  Modelled from the spec: \<open>ParameterInput.findNodesAndExtractValues\<close> and \<open>getSub\<close>
  of \<open>utils/InputData.py\<close>, which are not among the source files. A configuration
  schema declares for each parameter name a type and a default value; for each requested
  name the extraction takes the value of the first sub-node of that name, failing that the
  default that the first declaration of that name gives, and a name with neither is
  reported as not found (its value stays \<open>PyNone\<close>).
\<close>

definition getSub :: "sub_spec list \<Rightarrow> string \<Rightarrow> sub_spec option" where
  "getSub specs n = find (\<lambda>s. sub_name s = n) specs"

fun findNodesAndExtractValues ::
  "param_input \<Rightarrow> string list \<Rightarrow> (string \<times> param_value) list \<times> string list" where
  "findNodesAndExtractValues p [] = ([], [])"
| "findNodesAndExtractValues p (n # names) =
     (let (values, notFound) = findNodesAndExtractValues p names in
      case map_of (subparts p) n of
        Some v \<Rightarrow> ((n, v) # values, notFound)
      | None \<Rightarrow>
          (case getSub (parsedAgainst p) n of
             None \<Rightarrow> ((n, PyNone) # values, n # notFound)
           | Some s \<Rightarrow>
               (case declared_default s of
                  None \<Rightarrow> ((n, PyNone) # values, n # notFound)
                | Some d \<Rightarrow> ((n, d) # values, notFound))))"

text \<open>
  \<open>_handleInput\<close> (lines 106 to 110), after the inherited \<open>_handleInput\<close>: the
  result is the settings handed to \<open>initializeModel\<close>, or the failed assertion.
\<close>

definition handleInput :: "param_input \<Rightarrow> error + (string \<times> param_value) list" where
  "handleInput paramInput =
     (let (settings, notFound) = findNodesAndExtractValues paramInput ldaParameters in
      if notFound \<noteq> [] then Inl AssertionFailed else Inr settings)"

text \<open>An example document that sets two of the parameters.\<close>

definition exampleInput :: param_input where
  "exampleInput =
     \<lparr>parsedAgainst = getInputSpecification
        [\<lparr>sub_name = ''Features'', contentType = StringType, declared_default = None\<rparr>],
      subparts = [(''Features'', PyStr ''x''), (''solver'', PyStr ''lsqr''), (''tol'', PyFloat (1 / 1000))]\<rparr>"

section \<open>Evaluating before training or loading\<close>

text \<open>
  C1. For every collaborator (backend type) and every request, \<open>evaluate\<close> on a ROM
  that is not a pickled placeholder and whose \<open>amITrained\<close> is false raises the
  \<open>RuntimeError\<close> "has not been trained yet" and returns no results.
\<close>

theorem evaluate_untrained_raises:
  assumes "\<not> pickled self" and "\<not> amITrained self"
  shows "evaluate c self request = Inl NotTrained \<and> exceptionClass NotTrained = RuntimeError"
  using assms by (simp add: evaluate_def)

theorem evaluate_untrained_raises_witness:
  "\<not> pickled exampleROM \<and> \<not> amITrained exampleROM
   \<and> evaluate exampleCollaborators exampleROM (DictIn [(''x'', NdArray [1])]) = Inl NotTrained"
  using evaluate_untrained_raises [of exampleROM exampleCollaborators "DictIn [(''x'', NdArray [1])]"]
  by (simp add: exampleROM_def)

text \<open>
  C5. \<open>evaluate\<close> on a ROM whose \<open>pickled\<close> flag is true raises the error
  "has not been loaded yet", which is not the not-trained error, whatever the value of
  \<open>amITrained\<close>.
\<close>

theorem evaluate_pickled_raises_not_loaded:
  assumes "pickled self"
  shows "evaluate c self request = Inl NotLoaded \<and> evaluate c self request \<noteq> Inl NotTrained"
  using assms by (simp add: evaluate_def)

theorem evaluate_pickled_raises_not_loaded_witness:
  "pickled (exampleROM\<lparr>pickled := True, amITrained := True\<rparr>)
   \<and> evaluate exampleCollaborators (exampleROM\<lparr>pickled := True, amITrained := True\<rparr>) (DictIn [])
       = Inl NotLoaded
   \<and> evaluate exampleCollaborators (exampleROM\<lparr>pickled := True, amITrained := False\<rparr>) (DictIn [])
       = Inl NotLoaded"
  using evaluate_pickled_raises_not_loaded
          [of "exampleROM\<lparr>pickled := True, amITrained := True\<rparr>" exampleCollaborators "DictIn []"]
        evaluate_pickled_raises_not_loaded
          [of "exampleROM\<lparr>pickled := True, amITrained := False\<rparr>" exampleCollaborators "DictIn []"]
  by simp

section \<open>Training\<close>

lemma map_of_Some_key: "map_of data k = Some v \<Longrightarrow> k \<in> set (map fst data)"
  by (metis map_of_eq_None_iff option.distinct(1) set_map)

lemmas ex_defs = exampleROM_def exampleCollaborators_def exampleBackend_def
  train_def trainTimeDependent_def trainAt_def exampleSnapShoots_def notSynchronized_def Let_def
  staticSet_def dynamicSet_def noPivotSet_def flatPivotSet_def emptyPivotSet_def

lemma trainChain_from:
  assumes "length container = n" and "n \<le> length slices"
    and "\<forall>ts<n. k \<le> ts \<longrightarrow> container ! ts = b0"
    and "\<forall>ts<n. \<exists>b'. b_train c (slices ! ts) b0 = Returned b'"
  shows "\<exists>bs. trainChain c slices [k..<n] container = Returned bs \<and> length bs = n
            \<and> (\<forall>ts<n. k \<le> ts \<longrightarrow> b_train c (slices ! ts) b0 = Returned (bs ! ts))
            \<and> (\<forall>ts<k. bs ! ts = container ! ts)"
  using assms
proof (induction "n - k" arbitrary: k container)
  case 0
  then have "[k..<n] = []" by simp
  with 0 show ?case by simp
next
  case (Suc m)
  then have kn: "k < n" by simp
  then have upt: "[k..<n] = k # [Suc k..<n]" by (simp add: upt_conv_Cons)
  from Suc.prems kn obtain b' where b': "b_train c (slices ! k) b0 = Returned b'" by blast
  have ck: "container ! k = b0" using Suc.prems kn by simp
  let ?container = "container[k := b']"
  have m: "m = n - Suc k" using Suc.hyps by simp
  have len: "length ?container = n" using Suc.prems by simp
  have rest: "\<forall>ts<n. Suc k \<le> ts \<longrightarrow> ?container ! ts = b0" using Suc.prems by simp
  from Suc.hyps(1) [OF m len Suc.prems(2) rest Suc.prems(4)]
  obtain bs where bs: "trainChain c slices [Suc k..<n] ?container = Returned bs" "length bs = n"
      "\<forall>ts<n. Suc k \<le> ts \<longrightarrow> b_train c (slices ! ts) b0 = Returned (bs ! ts)"
      "\<forall>ts<Suc k. bs ! ts = ?container ! ts" by blast
  have bk: "bs ! k = b'" using bs(4) kn Suc.prems(1) by simp
  have step: "trainChain c slices [k..<n] container = Returned bs"
    using upt kn Suc.prems(1,2) ck b' bs(1) by simp
  have "\<forall>ts<n. k \<le> ts \<longrightarrow> b_train c (slices ! ts) b0 = Returned (bs ! ts)"
  proof (intro allI impI)
    fix ts assume "ts < n" "k \<le> ts"
    show "b_train c (slices ! ts) b0 = Returned (bs ! ts)"
    proof (cases "ts = k")
      case True then show ?thesis using b' bk by simp
    next
      case False then show ?thesis using bs(3) \<open>ts < n\<close> \<open>k \<le> ts\<close> by simp
    qed
  qed
  moreover have "\<forall>ts<k. bs ! ts = container ! ts" using bs(4) by simp
  ultimately show ?case using step bs(2) by blast
qed

lemma trainChain_replicate:
  assumes "n \<le> length slices"
    and "\<forall>ts<n. \<exists>b'. b_train c (slices ! ts) b0 = Returned b'"
  shows "\<exists>bs. trainChain c slices [0..<n] (replicate n b0) = Returned bs \<and> length bs = n
            \<and> (\<forall>ts<n. b_train c (slices ! ts) b0 = Returned (bs ! ts))"
  using trainChain_from [of "replicate n b0" n slices 0 b0 c] assms by simp

text \<open>
  C2 (as amended). Let the training set, after the alias system, hold a \<open>list\<close> value,
  let no segmentation be configured, let the backend not handle dynamic data, and let the
  ROM hold the single instance \<open>b\<close>. If moreover the histories are synchronized, the
  pivot parameter is present and is a non-empty \<open>list\<close> whose last realization has
  \<open>n > 0\<close> steps, \<open>historySnapShoots\<close> returns at least \<open>n\<close> slices and the training
  of a copy of the instance (with its assembled objects set) returns on each of the first
  \<open>n\<close> slices, then \<open>train\<close> returns, the container holds exactly \<open>n\<close> instances, the
  instance at index \<open>ts\<close> is the copy trained on slice \<open>ts\<close>, and \<open>amITrained\<close> is true.
\<close>

theorem train_builds_chain:
  assumes "\<not> segment self" and "\<not> canHandleDynamicData self"
    and "supervisedContainer self = [b]"
    and "\<not> notSynchronized (pivotParameterId self) given"
    and "data = replaceVariablesNamesWithAliasSystem c (inputToInternal given)"
    and "list_ex isList (map snd data)"
    and "map_of data (pivotParameterId self) = Some (PyList xss)"
    and "xss \<noteq> []" and "n = length (last xss)" and "0 < n"
    and "historySnapShoots c data n = Inr slices" and "n \<le> length slices"
    and "original = setAssembledObjects c (assemblerDict self) b"
    and "\<forall>ts<n. \<exists>b'. b_train c (slices ! ts) original = Returned b'"
  shows "\<exists>self'. train c self (DataArg given) = Returned self'
           \<and> length (supervisedContainer self') = n
           \<and> (\<forall>ts<n. b_train c (slices ! ts) original = Returned (supervisedContainer self' ! ts))
           \<and> amITrained self'"
proof -
  from trainChain_replicate [OF assms(12) assms(14)]
  obtain bs where bs: "trainChain c slices [0..<n] (replicate n original) = Returned bs"
      "length bs = n" "\<forall>ts<n. b_train c (slices ! ts) original = Returned (bs ! ts)" by blast
  have pivot: "pivotParameterId self \<in> set (map fst data)"
    using assms(7) by (rule map_of_Some_key)
  have "train c self (DataArg given) =
          Returned (self\<lparr>trainingSet := Some data, supervisedContainer := bs, isADynamicModel := True,
                         historySteps := last xss, amITrained := True\<rparr>)"
    using assms(1-11,13) pivot bs(1)
    by (simp add: train_def trainTimeDependent_def Let_def)
  then show ?thesis using bs(2,3) by simp
qed

theorem train_builds_chain_witness:
  "\<not> segment exampleROM \<and> \<not> canHandleDynamicData exampleROM
   \<and> supervisedContainer exampleROM = [exampleBackend]
   \<and> list_ex isList (map snd dynamicSet)
   \<and> map_of dynamicSet (pivotParameterId exampleROM) = Some (PyList [[0, 1], [0, 1]])
   \<and> historySnapShoots exampleCollaborators dynamicSet 2
       = Inr [[(''time'', NdArray [0, 0]), (''x'', NdArray [5, 6]), (''y'', NdArray [1, 3])],
              [(''time'', NdArray [1, 1]), (''x'', NdArray [5, 6]), (''y'', NdArray [2, 4])]]
   \<and> (\<exists>self'. train exampleCollaborators exampleROM (DataArg (DictIn dynamicSet)) = Returned self'
          \<and> length (supervisedContainer self') = 2
          \<and> fitted (supervisedContainer self' ! 0)
              = [[(''time'', NdArray [0, 0]), (''x'', NdArray [5, 6]), (''y'', NdArray [1, 3])]]
          \<and> fitted (supervisedContainer self' ! 1)
              = [[(''time'', NdArray [1, 1]), (''x'', NdArray [5, 6]), (''y'', NdArray [2, 4])]]
          \<and> amITrained self')"
proof -
  let ?slices = "[[(''time'', NdArray [0, 0]), (''x'', NdArray [5, 6]), (''y'', NdArray [1, 3])],
                  [(''time'', NdArray [1, 1]), (''x'', NdArray [5, 6]), (''y'', NdArray [2, 4])]]"
  have h: "\<not> segment exampleROM" "\<not> canHandleDynamicData exampleROM"
      "supervisedContainer exampleROM = [exampleBackend]"
      "\<not> notSynchronized (pivotParameterId exampleROM) (DictIn dynamicSet)"
      "dynamicSet = replaceVariablesNamesWithAliasSystem exampleCollaborators (inputToInternal (DictIn dynamicSet))"
      "list_ex isList (map snd dynamicSet)"
      "map_of dynamicSet (pivotParameterId exampleROM) = Some (PyList [[0, 1], [0, 1]])"
      "[[0, 1], [0, 1::real]] \<noteq> []" "(2::nat) = length (last [[0, 1], [0, 1::real]])" "0 < (2::nat)"
    by (simp_all add: ex_defs)
  have s: "historySnapShoots exampleCollaborators dynamicSet 2 = Inr ?slices"
    by (simp add: ex_defs upt_rec numeral_2_eq_2)
  have l: "2 \<le> length ?slices" by simp
  have o: "exampleBackend = setAssembledObjects exampleCollaborators (assemblerDict exampleROM) exampleBackend"
    by (simp add: ex_defs)
  have t: "\<forall>ts<2. \<exists>b'. b_train exampleCollaborators (?slices ! ts) exampleBackend = Returned b'"
    by (simp add: ex_defs)
  from train_builds_chain [OF h s l o t]
  obtain self' where r: "train exampleCollaborators exampleROM (DataArg (DictIn dynamicSet)) = Returned self'"
      "length (supervisedContainer self') = 2"
      "\<forall>ts<2. b_train exampleCollaborators (?slices ! ts) exampleBackend = Returned (supervisedContainer self' ! ts)"
      "amITrained self'" by blast
  have "Returned (supervisedContainer self' ! 0) = b_train exampleCollaborators (?slices ! 0) exampleBackend"
      "Returned (supervisedContainer self' ! 1) = b_train exampleCollaborators (?slices ! 1) exampleBackend"
    using r(3) [rule_format, of 0] r(3) [rule_format, of 1] by simp_all
  then have f: "fitted (supervisedContainer self' ! 0) = [?slices ! 0]"
      "fitted (supervisedContainer self' ! 1) = [?slices ! 1]"
    by (auto simp add: exampleCollaborators_def exampleBackend_def)
  show ?thesis using h(1,2,3,6,7) s r(1,2,4) f by simp
qed

text \<open>
  C2 as stated fails: with a \<open>list\<close> value but no pivot parameter, and with a pivot
  parameter whose last realization is empty (\<open>N = 0\<close>), \<open>train\<close> raises, the ROM keeps
  its single untrained instance and \<open>amITrained\<close> stays false.
\<close>

theorem train_builds_chain_counterexample:
  "list_ex isList (map snd noPivotSet) \<and> list_ex isList (map snd emptyPivotSet)
   \<and> \<not> canHandleDynamicData exampleROM \<and> \<not> segment exampleROM
   \<and> supervisedContainer exampleROM = [exampleBackend]
   \<and> train exampleCollaborators exampleROM (DataArg (DictIn noPivotSet))
       = Raised PivotNotPresent (exampleROM\<lparr>trainingSet := Some noPivotSet, isADynamicModel := True\<rparr>)
   \<and> map_of emptyPivotSet (pivotParameterId exampleROM) = Some (PyList [[0, 1], []])
   \<and> train exampleCollaborators exampleROM (DataArg (DictIn emptyPivotSet))
       = Raised TrainingSetEmpty (exampleROM\<lparr>trainingSet := Some emptyPivotSet, isADynamicModel := True\<rparr>)
   \<and> \<not> amITrained (exampleROM\<lparr>trainingSet := Some emptyPivotSet, isADynamicModel := True\<rparr>)"
  by (simp add: ex_defs)

text \<open>
  C4 (as amended). Let the backend handle dynamic data and the ROM hold the single instance
  \<open>b\<close>, and let the histories be synchronized. If, whenever the training set holds a
  \<open>list\<close> value and no segmentation is configured, the pivot parameter is a non-empty
  \<open>list\<close> whose last realization is not empty, then \<open>train\<close> makes exactly one
  \<open>train\<close> call, on that instance with the whole training set; the container holds
  exactly the resulting instance, \<open>train\<close> raises exactly when that call raises, and
  \<open>amITrained\<close> becomes true when it returns.
\<close>

theorem train_native_dynamic:
  assumes "canHandleDynamicData self" and "supervisedContainer self = [b]"
    and "\<not> notSynchronized (pivotParameterId self) given"
    and "data = replaceVariablesNamesWithAliasSystem c (inputToInternal given)"
    and "list_ex isList (map snd data) \<and> \<not> segment self \<longrightarrow>
           (\<exists>xss. map_of data (pivotParameterId self) = Some (PyList xss) \<and> xss \<noteq> [] \<and> last xss \<noteq> [])"
    and "original = setAssembledObjects c (assemblerDict self) b"
  shows "supervisedContainer (stateOf (train c self (DataArg given))) = [stateOf (b_train c data original)]
         \<and> raised (train c self (DataArg given)) = raised (b_train c data original)
         \<and> amITrained (stateOf (train c self (DataArg given)))
             = (raised (b_train c data original) = None \<or> amITrained self)"
proof (cases "list_ex isList (map snd data) \<and> \<not> segment self")
  case True
  with assms(5) obtain xss where xss: "map_of data (pivotParameterId self) = Some (PyList xss)"
      "xss \<noteq> []" "last xss \<noteq> []" by blast
  have pivot: "pivotParameterId self \<in> set (map fst data)"
    using xss(1) by (rule map_of_Some_key)
  show ?thesis
    using assms(1-4,6) True xss pivot
    by (cases "b_train c data original")
       (simp_all add: train_def trainTimeDependent_def trainAt_def Let_def)
next
  case False
  then show ?thesis
    using assms(1-4,6)
    by (cases "b_train c data original")
       (auto simp add: train_def trainAt_def Let_def)
qed

theorem train_native_dynamic_witness:
  "canHandleDynamicData (exampleROM\<lparr>canHandleDynamicData := True\<rparr>)
   \<and> supervisedContainer (exampleROM\<lparr>canHandleDynamicData := True\<rparr>) = [exampleBackend]
   \<and> list_ex isList (map snd dynamicSet)
   \<and> supervisedContainer (stateOf (train exampleCollaborators (exampleROM\<lparr>canHandleDynamicData := True\<rparr>)
         (DataArg (DictIn dynamicSet))))
       = [\<lparr>assembled = [], fitted = [dynamicSet]\<rparr>]
   \<and> raised (train exampleCollaborators (exampleROM\<lparr>canHandleDynamicData := True\<rparr>)
         (DataArg (DictIn dynamicSet))) = None
   \<and> amITrained (stateOf (train exampleCollaborators (exampleROM\<lparr>canHandleDynamicData := True\<rparr>)
         (DataArg (DictIn dynamicSet))))"
  using train_native_dynamic [where self = "exampleROM\<lparr>canHandleDynamicData := True\<rparr>"
          and b = exampleBackend and given = "DictIn dynamicSet" and data = dynamicSet
          and c = exampleCollaborators and original = exampleBackend]
  by (simp add: exampleROM_def exampleCollaborators_def exampleBackend_def notSynchronized_def dynamicSet_def)

text \<open>
  C4 as stated fails: with \<open>canHandleDynamicData\<close> true and a time-dependent training set
  that lacks the pivot parameter, \<open>train\<close> raises before any backend is trained.
\<close>

theorem train_native_dynamic_counterexample:
  "canHandleDynamicData (exampleROM\<lparr>canHandleDynamicData := True\<rparr>)
   \<and> supervisedContainer (exampleROM\<lparr>canHandleDynamicData := True\<rparr>) = [exampleBackend]
   \<and> train exampleCollaborators (exampleROM\<lparr>canHandleDynamicData := True\<rparr>) (DataArg (DictIn noPivotSet))
       = Raised PivotNotPresent
           (exampleROM\<lparr>canHandleDynamicData := True, trainingSet := Some noPivotSet, isADynamicModel := True\<rparr>)
   \<and> fitted (hd (supervisedContainer
         (exampleROM\<lparr>canHandleDynamicData := True, trainingSet := Some noPivotSet, isADynamicModel := True\<rparr>))) = []"
  by (simp add: ex_defs)

text \<open>
  C6. Let no segmentation be configured, let the ROM hold at least one instance, and let
  the training set, after the alias system, hold a \<open>list\<close> value. If the pivot parameter
  is absent, or is not a \<open>list\<close>, or is a non-empty \<open>list\<close> whose last realization is
  empty, then \<open>train\<close> raises an \<open>IOError\<close> (the spec's DataConsistencyError) and
  leaves \<open>amITrained\<close> as it was.
\<close>

theorem train_pivot_errors:
  assumes "\<not> segment self" and "supervisedContainer self \<noteq> []"
    and "data = replaceVariablesNamesWithAliasSystem c (inputToInternal given)"
    and "list_ex isList (map snd data)"
    and "pivotParameterId self \<notin> set (map fst data)
         \<or> (\<exists>xs. map_of data (pivotParameterId self) = Some (NdArray xs))
         \<or> (\<exists>xss. map_of data (pivotParameterId self) = Some (PyList xss) \<and> xss \<noteq> [] \<and> last xss = [])"
  shows "\<exists>e. raised (train c self (DataArg given)) = Some e
           \<and> e \<in> {NotSynchronized, PivotNotPresent, PivotNotAList, TrainingSetEmpty}
           \<and> exceptionClass e = IOError
           \<and> amITrained (stateOf (train c self (DataArg given))) = amITrained self"
proof (cases "notSynchronized (pivotParameterId self) given")
  case True
  then show ?thesis by (simp add: train_def)
next
  case False
  have present: "map_of data (pivotParameterId self) = Some v \<Longrightarrow> pivotParameterId self \<in> set (map fst data)" for v
    by (rule map_of_Some_key)
  from assms(5) show ?thesis
  proof (elim disjE exE conjE)
    assume "pivotParameterId self \<notin> set (map fst data)"
    then show ?thesis using False assms(1-4)
      by (simp add: train_def trainTimeDependent_def Let_def)
  next
    fix xs assume "map_of data (pivotParameterId self) = Some (NdArray xs)"
    then show ?thesis using False assms(1-4) present
      by (simp add: train_def trainTimeDependent_def Let_def)
  next
    fix xss assume "map_of data (pivotParameterId self) = Some (PyList xss)" "xss \<noteq> []" "last xss = []"
    then show ?thesis using False assms(1-4) present
      by (simp add: train_def trainTimeDependent_def Let_def)
  qed
qed

theorem train_pivot_errors_witness:
  "\<not> segment exampleROM \<and> supervisedContainer exampleROM \<noteq> []
   \<and> list_ex isList (map snd noPivotSet) \<and> list_ex isList (map snd flatPivotSet)
   \<and> list_ex isList (map snd emptyPivotSet)
   \<and> pivotParameterId exampleROM \<notin> set (map fst noPivotSet)
   \<and> map_of flatPivotSet (pivotParameterId exampleROM) = Some (NdArray [0, 1])
   \<and> map_of emptyPivotSet (pivotParameterId exampleROM) = Some (PyList [[0, 1], []])
   \<and> (\<exists>e. raised (train exampleCollaborators exampleROM (DataArg (DictIn noPivotSet))) = Some e
          \<and> exceptionClass e = IOError)
   \<and> \<not> amITrained (stateOf (train exampleCollaborators exampleROM (DataArg (DictIn noPivotSet))))
   \<and> (\<exists>e. raised (train exampleCollaborators exampleROM (DataArg (DictIn flatPivotSet))) = Some e
          \<and> exceptionClass e = IOError)
   \<and> \<not> amITrained (stateOf (train exampleCollaborators exampleROM (DataArg (DictIn flatPivotSet))))
   \<and> (\<exists>e. raised (train exampleCollaborators exampleROM (DataArg (DictIn emptyPivotSet))) = Some e
          \<and> exceptionClass e = IOError)
   \<and> \<not> amITrained (stateOf (train exampleCollaborators exampleROM (DataArg (DictIn emptyPivotSet))))"
proof -
  have h: "\<not> segment exampleROM" "supervisedContainer exampleROM \<noteq> []"
      "\<not> amITrained exampleROM"
    by (simp_all add: exampleROM_def)
  have a: "\<And>d. d = replaceVariablesNamesWithAliasSystem exampleCollaborators (inputToInternal (DictIn d))"
    by (simp add: exampleCollaborators_def)
  have l: "list_ex isList (map snd noPivotSet)" "list_ex isList (map snd flatPivotSet)"
      "list_ex isList (map snd emptyPivotSet)"
    by (simp_all add: noPivotSet_def flatPivotSet_def emptyPivotSet_def)
  have p1: "pivotParameterId exampleROM \<notin> set (map fst noPivotSet)"
    by (simp add: exampleROM_def noPivotSet_def)
  have p2: "map_of flatPivotSet (pivotParameterId exampleROM) = Some (NdArray [0, 1])"
    by (simp add: exampleROM_def flatPivotSet_def)
  have p3: "map_of emptyPivotSet (pivotParameterId exampleROM) = Some (PyList [[0, 1], []])"
    by (simp add: exampleROM_def emptyPivotSet_def)
  have t1: "\<exists>e. raised (train exampleCollaborators exampleROM (DataArg (DictIn noPivotSet))) = Some e
              \<and> exceptionClass e = IOError
              \<and> amITrained (stateOf (train exampleCollaborators exampleROM (DataArg (DictIn noPivotSet))))
                  = amITrained exampleROM"
    using train_pivot_errors [OF h(1,2) a l(1)] p1 by blast
  have t2: "\<exists>e. raised (train exampleCollaborators exampleROM (DataArg (DictIn flatPivotSet))) = Some e
              \<and> exceptionClass e = IOError
              \<and> amITrained (stateOf (train exampleCollaborators exampleROM (DataArg (DictIn flatPivotSet))))
                  = amITrained exampleROM"
    using train_pivot_errors [OF h(1,2) a l(2)] p2 by blast
  have t3: "\<exists>e. raised (train exampleCollaborators exampleROM (DataArg (DictIn emptyPivotSet))) = Some e
              \<and> exceptionClass e = IOError
              \<and> amITrained (stateOf (train exampleCollaborators exampleROM (DataArg (DictIn emptyPivotSet))))
                  = amITrained exampleROM"
    using train_pivot_errors [OF h(1,2) a l(3)] p3 by force
  show ?thesis using h l p1 p2 p3 t1 t2 t3 by blast
qed

section \<open>Serializing an untrained ROM\<close>

text \<open>
  C8. The dictionary that \<open>__getstate__\<close> returns never has the key
  \<open>assemblerDict\<close>, for any ROM. For a ROM whose \<open>amITrained\<close> is false it has no
  \<open>supervisedContainer\<close> either, and, when the factory returns the instance \<open>fresh\<close>
  for the recorded \<open>subType\<close>, \<open>__setstate__\<close> on it gives a ROM that is not trained,
  holds exactly \<open>fresh\<close>, has an empty \<open>assemblerDict\<close> and the same \<open>subType\<close>.
\<close>

theorem untrained_roundtrip:
  assumes "\<not> amITrained self" and "returnInstance c (subType self) = Inr fresh"
  shows "d_assemblerDict (getstate anyROM) = None
         \<and> d_supervisedContainer (getstate self) = None
         \<and> (\<exists>self'. setstate c (getstate self) = Inr self'
               \<and> \<not> amITrained self'
               \<and> supervisedContainer self' = [fresh]
               \<and> assemblerDict self' = []
               \<and> subType self' = subType self)"
  using assms by (simp add: getstate_def setstate_def dictOf_def Let_def)

theorem untrained_roundtrip_witness:
  "\<not> amITrained (exampleROM\<lparr>assemblerDict := [(''CV'', [''cv1''])]\<rparr>)
   \<and> returnInstance exampleCollaborators (subType (exampleROM\<lparr>assemblerDict := [(''CV'', [''cv1''])]\<rparr>))
       = Inr exampleBackend
   \<and> setstate exampleCollaborators (getstate (exampleROM\<lparr>assemblerDict := [(''CV'', [''cv1''])]\<rparr>))
       = Inr exampleROM"
  using untrained_roundtrip [of "exampleROM\<lparr>assemblerDict := [(''CV'', [''cv1''])]\<rparr>"
          exampleCollaborators exampleBackend]
  by (simp add: exampleROM_def exampleCollaborators_def getstate_def setstate_def dictOf_def)

section \<open>Evaluating a chain\<close>

lemma appendSlice_present:
  assumes "\<forall>k \<in> set (map fst acc). map_of slice k \<noteq> None"
  shows "appendSlice slice acc done
         = Inr (rev done @ map (\<lambda>(k, v). (k, np_append v (the (map_of slice k)))) acc)"
  using assms
proof (induction acc arbitrary: "done")
  case Nil
  then show ?case by simp
next
  case (Cons kv acc)
  obtain k v where kv: "kv = (k, v)" by (cases kv)
  from Cons.prems kv obtain w where w: "map_of slice k = Some w" by auto
  from Cons.prems have "\<forall>k \<in> set (map fst acc). map_of slice k \<noteq> None" by simp
  from Cons.IH [OF this] show ?case using kv w by simp
qed

lemma map_of_map_keyed:
  "map_of (map (\<lambda>(k, v). (k, f k v)) xs) k = map_option (f k) (map_of xs k)"
  by (induction xs) auto

lemma map_fst_map_keyed: "map fst (map (\<lambda>(k, v). (k, f k v)) xs) = map fst xs"
  by (induction xs) auto

lemma evaluateChain_appends:
  assumes "acc \<noteq> []" and "map (b_run c request) roms = map Inr rs"
    and "\<forall>r \<in> set rs. \<forall>k \<in> set (map fst acc). map_of r k \<noteq> None"
  shows "\<exists>out. evaluateChain c request roms acc = Inr out \<and> map fst out = map fst acc
           \<and> (\<forall>k v. map_of acc k = Some v \<longrightarrow>
                 (\<exists>v'. map_of out k = Some v'
                    \<and> ravel v' = ravel v @ concat (map (\<lambda>r. ravel (the (map_of r k))) rs)))"
  using assms
proof (induction roms arbitrary: rs acc)
  case Nil
  then show ?case by simp
next
  case (Cons rom roms)
  from Cons.prems(2) obtain r rs' where rs: "rs = r # rs'" "b_run c request rom = Inr r"
      "map (b_run c request) roms = map Inr rs'" by (cases rs) auto
  let ?acc = "map (\<lambda>(k, v). (k, np_append v (the (map_of r k)))) acc"
  have keys: "\<forall>k \<in> set (map fst acc). map_of r k \<noteq> None" using Cons.prems(3) rs(1) by simp
  have app: "appendSlice r acc [] = Inr ?acc" using appendSlice_present [OF keys, of "[]"] by simp
  have fst: "map fst ?acc = map fst acc" by (rule map_fst_map_keyed)
  have ne: "?acc \<noteq> []" using Cons.prems(1) by simp
  have keys': "\<forall>r \<in> set rs'. \<forall>k \<in> set (map fst ?acc). map_of r k \<noteq> None"
    using Cons.prems(3) rs(1) fst by simp
  from Cons.IH [OF ne rs(3) keys']
  obtain out where out: "evaluateChain c request roms ?acc = Inr out" "map fst out = map fst ?acc"
      "\<forall>k v. map_of ?acc k = Some v \<longrightarrow>
         (\<exists>v'. map_of out k = Some v'
            \<and> ravel v' = ravel v @ concat (map (\<lambda>r. ravel (the (map_of r k))) rs'))" by blast
  have step: "evaluateChain c request (rom # roms) acc = Inr out"
    using rs(2) Cons.prems(1) app out(1) by simp
  have "\<exists>v'. map_of out k = Some v'
            \<and> ravel v' = ravel v @ concat (map (\<lambda>r. ravel (the (map_of r k))) rs)"
    if "map_of acc k = Some v" for k v
  proof -
    have "map_of ?acc k = Some (np_append v (the (map_of r k)))"
      using that by (simp add: map_of_map_keyed)
    with out(3) obtain v' where "map_of out k = Some v'"
        "ravel v' = ravel (np_append v (the (map_of r k))) @ concat (map (\<lambda>r. ravel (the (map_of r k))) rs')"
      by blast
    then show ?thesis using rs(1) by (simp add: np_append_def)
  qed
  then show ?case using step out(2) fst by auto
qed

text \<open>
  C3. Let the ROM be trained, not a pickled placeholder and without segmentation, and let
  the \<open>run\<close> of each instance of its container return, the first returning the
  non-empty dictionary \<open>first\<close> and every later one a dictionary that has every key of
  \<open>first\<close>. Then \<open>evaluate\<close> returns a dictionary with the keys of \<open>first\<close>, and the
  value of each such key is the array made of the values that the instances returned for
  it, one segment per instance, in the order of the container.
\<close>

theorem evaluate_concatenates_chain:
  assumes "\<not> pickled self" and "amITrained self" and "\<not> segment self"
    and "map (b_run c (inputToInternal request)) (supervisedContainer self) = map Inr (first # rest)"
    and "first \<noteq> []"
    and "\<forall>r \<in> set rest. \<forall>k \<in> set (map fst first). map_of r k \<noteq> None"
  shows "\<exists>out. evaluate c self request = Inr out
           \<and> map fst out = map fst first
           \<and> (\<forall>k v. map_of first k = Some v \<longrightarrow>
                 map_of out k = Some (Array (concat (map (\<lambda>r. ravel (the (map_of r k))) (first # rest)))))"
proof -
  from assms(4) obtain rom roms where c: "supervisedContainer self = rom # roms"
      "b_run c (inputToInternal request) rom = Inr first"
      "map (b_run c (inputToInternal request)) roms = map Inr rest"
    by (cases "supervisedContainer self") auto
  from evaluateChain_appends [OF assms(5) c(3) assms(6)]
  obtain res where res: "evaluateChain c (inputToInternal request) roms first = Inr res"
      "map fst res = map fst first"
      "\<forall>k v. map_of first k = Some v \<longrightarrow>
         (\<exists>v'. map_of res k = Some v'
            \<and> ravel v' = ravel v @ concat (map (\<lambda>r. ravel (the (map_of r k))) rest))" by blast
  let ?out = "map (\<lambda>(k, v). (k, np_atleast_1d v)) res"
  have e: "evaluate c self request = Inr ?out"
    using assms(1-3) c(1,2) res(1) by (simp add: evaluate_def)
  have "map fst ?out = map fst res"
    by (rule map_fst_map_keyed [where f = "\<lambda>k. np_atleast_1d"])
  then have f: "map fst ?out = map fst first" using res(2) by (rule trans)
  have "map_of ?out k = Some (Array (concat (map (\<lambda>r. ravel (the (map_of r k))) (first # rest))))"
    if "map_of first k = Some v" for k v
  proof -
    from res(3) that obtain v' where "map_of res k = Some v'"
        "ravel v' = ravel v @ concat (map (\<lambda>r. ravel (the (map_of r k))) rest)" by blast
    then show ?thesis using that by (simp add: map_of_map_keyed np_atleast_1d_def)
  qed
  then show ?thesis using e f by blast
qed

lemma exampleChain_eq:
  "exampleChain =
     exampleROM\<lparr>amITrained := True, isADynamicModel := True, historySteps := [0, 1],
       trainingSet := Some dynamicSet,
       supervisedContainer :=
         [\<lparr>assembled = [],
            fitted = [[(''time'', NdArray [0, 0]), (''x'', NdArray [5, 6]), (''y'', NdArray [1, 3])]]\<rparr>,
          \<lparr>assembled = [],
            fitted = [[(''time'', NdArray [1, 1]), (''x'', NdArray [5, 6]), (''y'', NdArray [2, 4])]]\<rparr>]\<rparr>"
  by (simp add: exampleChain_def ex_defs upt_rec numeral_2_eq_2)

theorem evaluate_concatenates_chain_witness:
  "\<not> pickled exampleChain \<and> amITrained exampleChain \<and> \<not> segment exampleChain
   \<and> length (supervisedContainer exampleChain) = 2
   \<and> map (b_run exampleCollaborators (inputToInternal (DictIn staticSet))) (supervisedContainer exampleChain)
       = map Inr [[(''time'', Array [0, 0]), (''x'', Array [5, 6]), (''y'', Array [1, 3])],
                  [(''time'', Array [1, 1]), (''x'', Array [5, 6]), (''y'', Array [2, 4])]]
   \<and> (\<exists>out. evaluate exampleCollaborators exampleChain (DictIn staticSet) = Inr out
          \<and> map fst out = [''time'', ''x'', ''y'']
          \<and> map_of out ''time'' = Some (Array [0, 0, 1, 1])
          \<and> map_of out ''x'' = Some (Array [5, 6, 5, 6])
          \<and> map_of out ''y'' = Some (Array [1, 3, 2, 4]))"
proof -
  let ?first = "[(''time'', Array [0, 0]), (''x'', Array [5, 6]), (''y'', Array [1, 3])]"
  let ?second = "[(''time'', Array [1, 1]), (''x'', Array [5, 6]), (''y'', Array [2, 4])]"
  have h: "\<not> pickled exampleChain" "amITrained exampleChain" "\<not> segment exampleChain"
      "map (b_run exampleCollaborators (inputToInternal (DictIn staticSet))) (supervisedContainer exampleChain)
       = map Inr (?first # [?second])"
      "?first \<noteq> []"
      "\<forall>r \<in> set [?second]. \<forall>k \<in> set (map fst ?first). map_of r k \<noteq> None"
    by (simp_all add: exampleChain_eq exampleROM_def exampleCollaborators_def)
  have n: "length (supervisedContainer exampleChain) = 2"
    by (simp add: exampleChain_eq)
  from evaluate_concatenates_chain [OF h]
  obtain out where o: "evaluate exampleCollaborators exampleChain (DictIn staticSet) = Inr out"
      "map fst out = map fst ?first"
      "\<forall>k v. map_of ?first k = Some v \<longrightarrow>
         map_of out k = Some (Array (concat (map (\<lambda>r. ravel (the (map_of r k))) (?first # [?second]))))"
    by blast
  have "map_of out ''time'' = Some (Array [0, 0, 1, 1])"
      "map_of out ''x'' = Some (Array [5, 6, 5, 6])"
      "map_of out ''y'' = Some (Array [1, 3, 2, 4])"
    using o(3) [rule_format, of "''time''" "Array [0, 0]"]
          o(3) [rule_format, of "''x''" "Array [5, 6]"]
          o(3) [rule_format, of "''y''" "Array [1, 3]"] by simp_all
  then show ?thesis using h(1-4) n o(1,2) by simp
qed

section \<open>Reset and training again\<close>

lemma withContainer_simps:
  "raised (withContainer s oc) = raised oc"
  "supervisedContainer (stateOf (withContainer s oc)) = stateOf oc"
  "amITrained (stateOf (withContainer s oc)) = (raised oc = None \<or> amITrained s)"
  "pickled (stateOf (withContainer s oc)) = pickled s"
  "segment (stateOf (withContainer s oc)) = segment s"
  by (cases oc; simp)+

lemma evaluate_cong:
  assumes "pickled s = pickled t" and "amITrained s = amITrained t"
    and "amITrained s \<longrightarrow> segment s = segment t \<and> supervisedContainer s = supervisedContainer t"
  shows "evaluate c s request = evaluate c t request"
  using assms by (cases "amITrained t") (simp_all add: evaluate_def Let_def)

lemma trainTimeDependent_cong:
  assumes "pivotParameterId s = pivotParameterId t"
    and "canHandleDynamicData s = canHandleDynamicData t"
    and "segment s = segment t" and "pickled s = pickled t" and "amITrained s = amITrained t"
    and "supervisedContainer s = supervisedContainer t"
  shows "raised (trainTimeDependent c s data) = raised (trainTimeDependent c t data)
       \<and> pickled (stateOf (trainTimeDependent c s data)) = pickled (stateOf (trainTimeDependent c t data))
       \<and> amITrained (stateOf (trainTimeDependent c s data)) = amITrained (stateOf (trainTimeDependent c t data))
       \<and> segment (stateOf (trainTimeDependent c s data)) = segment (stateOf (trainTimeDependent c t data))
       \<and> supervisedContainer (stateOf (trainTimeDependent c s data))
           = supervisedContainer (stateOf (trainTimeDependent c t data))"
  using assms
  by (simp add: trainTimeDependent_def Let_def withContainer_simps
           split: option.splits pyval.splits sum.splits)

lemma trainTimeDependent_rebuilds:
  assumes "pivotParameterId s = pivotParameterId t"
    and "\<not> canHandleDynamicData s" and "\<not> canHandleDynamicData t"
    and "segment s = segment t" and "pickled s = pickled t"
    and "\<not> amITrained s" and "\<not> amITrained t"
    and "supervisedContainer s ! 0 = supervisedContainer t ! 0"
  shows "raised (trainTimeDependent c s data) = raised (trainTimeDependent c t data)
       \<and> pickled (stateOf (trainTimeDependent c s data)) = pickled (stateOf (trainTimeDependent c t data))
       \<and> amITrained (stateOf (trainTimeDependent c s data)) = amITrained (stateOf (trainTimeDependent c t data))
       \<and> segment (stateOf (trainTimeDependent c s data)) = segment (stateOf (trainTimeDependent c t data))
       \<and> (amITrained (stateOf (trainTimeDependent c s data)) \<longrightarrow>
            supervisedContainer (stateOf (trainTimeDependent c s data))
              = supervisedContainer (stateOf (trainTimeDependent c t data)))"
  using assms
  by (simp add: trainTimeDependent_def Let_def withContainer_simps
           split: option.splits pyval.splits sum.splits)

text \<open>
  C7 (as amended). Let \<open>f\<close> be an untrained ROM holding the single instance \<open>b0\<close>, and
  \<open>r\<close> a ROM with the same configuration (pivot parameter, dynamic-data capability,
  segmentation, pickled flag, assembler table) whose first held instance, once reset and
  given the assembled objects, is \<open>b0\<close> with the assembled objects. If \<open>r\<close> holds one
  instance, or the training set is time-dependent and \<open>train\<close> rebuilds the chain (no
  segmentation, no native handling of dynamic data), then \<open>reset\<close> followed by
  \<open>train\<close> on \<open>r\<close> raises exactly when \<open>train\<close> on \<open>f\<close> does, and \<open>evaluate\<close> gives
  the same outcome on both for every request.
\<close>

theorem reset_then_train_equivalent:
  assumes "pivotParameterId r = pivotParameterId f"
    and "canHandleDynamicData r = canHandleDynamicData f"
    and "segment r = segment f" and "pickled r = pickled f"
    and "assemblerDict r = assemblerDict f"
    and "\<not> amITrained f" and "supervisedContainer f = [b0]"
    and "supervisedContainer r = b # bs"
    and "setAssembledObjects c (assemblerDict f) (b_reset c b)
         = setAssembledObjects c (assemblerDict f) b0"
    and "data = replaceVariablesNamesWithAliasSystem c (inputToInternal given)"
    and "bs = [] \<or> (\<not> segment f \<and> \<not> canHandleDynamicData f \<and> list_ex isList (map snd data))"
  shows "raised (train c (reset c r) (DataArg given)) = raised (train c f (DataArg given))
         \<and> (\<forall>request. evaluate c (stateOf (train c (reset c r) (DataArg given))) request
                        = evaluate c (stateOf (train c f (DataArg given))) request)"
proof -
  let ?s = "train c (reset c r) (DataArg given)" and ?t = "train c f (DataArg given)"
  let ?b0 = "setAssembledObjects c (assemblerDict f) b0"
  let ?s2 = "(reset c r)\<lparr>trainingSet := Some data,
                supervisedContainer := ?b0 # map (b_reset c) bs\<rparr>"
  let ?f2 = "f\<lparr>trainingSet := Some data, supervisedContainer := [?b0]\<rparr>"
  have obs: "raised ?s = raised ?t \<and> pickled (stateOf ?s) = pickled (stateOf ?t)
      \<and> amITrained (stateOf ?s) = amITrained (stateOf ?t)
      \<and> (amITrained (stateOf ?s) \<longrightarrow> segment (stateOf ?s) = segment (stateOf ?t)
             \<and> supervisedContainer (stateOf ?s) = supervisedContainer (stateOf ?t))"
  proof (cases "notSynchronized (pivotParameterId f) given")
    case True
    then show ?thesis using assms(1,4,6) by (simp add: train_def reset_def)
  next
    case False
    have cfg: "pivotParameterId ?s2 = pivotParameterId ?f2"
        "canHandleDynamicData ?s2 = canHandleDynamicData ?f2"
        "segment ?s2 = segment ?f2" "pickled ?s2 = pickled ?f2"
        "amITrained ?s2 = amITrained ?f2" "\<not> amITrained ?s2" "\<not> amITrained ?f2"
        "supervisedContainer ?s2 ! 0 = supervisedContainer ?f2 ! 0"
        "segment ?s2 = segment f" "canHandleDynamicData ?s2 = canHandleDynamicData f"
      using assms(1-6) by (simp_all add: reset_def)
    have ts: "?s = (if segment f then withContainer ?s2 (trainAt c 0 data (supervisedContainer ?s2))
                    else if list_ex isList (map snd data) then trainTimeDependent c ?s2 data
                    else withContainer ?s2 (trainAt c 0 data (supervisedContainer ?s2)))"
      using False assms(1,3,5,8,9,10) by (simp add: train_def reset_def Let_def)
    have tf: "?t = (if segment f then withContainer ?f2 (trainAt c 0 data (supervisedContainer ?f2))
                    else if list_ex isList (map snd data) then trainTimeDependent c ?f2 data
                    else withContainer ?f2 (trainAt c 0 data (supervisedContainer ?f2)))"
      using False assms(7,10) by (simp add: train_def Let_def)
    from assms(11) show ?thesis
    proof
      assume "bs = []"
      then have same: "supervisedContainer ?s2 = supervisedContainer ?f2" by simp
      show ?thesis
      proof (cases "\<not> segment f \<and> list_ex isList (map snd data)")
        case True
        then show ?thesis
          using ts tf trainTimeDependent_cong [OF cfg(1-5) same, of c data] by simp
      next
        case False
        then have "?s = withContainer ?s2 (trainAt c 0 data (supervisedContainer ?s2))"
            "?t = withContainer ?f2 (trainAt c 0 data (supervisedContainer ?f2))"
          using ts tf by auto
        then show ?thesis using same cfg(3-5) by (simp only: withContainer_simps) simp
      qed
    next
      assume chain: "\<not> segment f \<and> \<not> canHandleDynamicData f \<and> list_ex isList (map snd data)"
      then have nh: "\<not> canHandleDynamicData ?s2" "\<not> canHandleDynamicData ?f2"
        using cfg(10) by simp_all
      from chain have "?s = trainTimeDependent c ?s2 data" "?t = trainTimeDependent c ?f2 data"
        using ts tf by simp_all
      then show ?thesis
        using trainTimeDependent_rebuilds [OF cfg(1) nh cfg(3,4,6,7,8), of c data] by simp
    qed
  qed
  then show ?thesis using evaluate_cong [of "stateOf ?s" "stateOf ?t" c] by blast
qed

lemma exampleStatic_eq:
  "exampleStatic =
     exampleROM\<lparr>amITrained := True, trainingSet := Some staticSet,
       supervisedContainer := [\<lparr>assembled = [], fitted = [staticSet]\<rparr>]\<rparr>"
  by (simp add: exampleStatic_def ex_defs)

theorem reset_then_train_equivalent_witness:
  "supervisedContainer exampleStatic = [\<lparr>assembled = [], fitted = [staticSet]\<rparr>]
   \<and> supervisedContainer exampleROM = [exampleBackend] \<and> \<not> amITrained exampleROM
   \<and> evaluate exampleCollaborators
         (stateOf (train exampleCollaborators (reset exampleCollaborators exampleStatic)
            (DataArg (DictIn dynamicSet)))) (DictIn staticSet)
       = evaluate exampleCollaborators
           (stateOf (train exampleCollaborators exampleROM (DataArg (DictIn dynamicSet)))) (DictIn staticSet)
   \<and> length (supervisedContainer exampleChain) = 2
   \<and> list_ex isList (map snd dynamicSet)
   \<and> evaluate exampleCollaborators
         (stateOf (train exampleCollaborators (reset exampleCollaborators exampleChain)
            (DataArg (DictIn dynamicSet)))) (DictIn staticSet)
       = evaluate exampleCollaborators
           (stateOf (train exampleCollaborators exampleROM (DataArg (DictIn dynamicSet)))) (DictIn staticSet)
   \<and> evaluate exampleCollaborators
         (stateOf (train exampleCollaborators exampleROM (DataArg (DictIn dynamicSet)))) (DictIn staticSet)
       = Inr [(''time'', Array [0, 0, 1, 1]), (''x'', Array [5, 6, 5, 6]), (''y'', Array [1, 3, 2, 4])]"
proof -
  let ?b = "\<lparr>assembled = [], fitted = [staticSet]\<rparr>"
  let ?b1 = "\<lparr>assembled = [],
      fitted = [[(''time'', NdArray [0, 0]), (''x'', NdArray [5, 6]), (''y'', NdArray [1, 3])]]\<rparr>"
  let ?b2 = "\<lparr>assembled = [],
      fitted = [[(''time'', NdArray [1, 1]), (''x'', NdArray [5, 6]), (''y'', NdArray [2, 4])]]\<rparr>"
  have f: "\<not> amITrained exampleROM" "supervisedContainer exampleROM = [exampleBackend]"
    by (simp_all add: exampleROM_def)
  have a: "dynamicSet = replaceVariablesNamesWithAliasSystem exampleCollaborators (inputToInternal (DictIn dynamicSet))"
    by (simp add: exampleCollaborators_def)
  have d: "list_ex isList (map snd dynamicSet)" by (simp add: dynamicSet_def)
  have s: "pivotParameterId exampleStatic = pivotParameterId exampleROM"
      "canHandleDynamicData exampleStatic = canHandleDynamicData exampleROM"
      "segment exampleStatic = segment exampleROM" "pickled exampleStatic = pickled exampleROM"
      "assemblerDict exampleStatic = assemblerDict exampleROM"
    by (simp_all add: exampleStatic_eq)
  have sc: "supervisedContainer exampleStatic = ?b # []" by (simp add: exampleStatic_eq)
  have sr: "setAssembledObjects exampleCollaborators (assemblerDict exampleROM) (b_reset exampleCollaborators ?b)
            = setAssembledObjects exampleCollaborators (assemblerDict exampleROM) exampleBackend"
    by (simp add: exampleCollaborators_def exampleBackend_def)
  have s1: "[] = [] \<or> (\<not> segment exampleROM \<and> \<not> canHandleDynamicData exampleROM
                \<and> list_ex isList (map snd dynamicSet))" by simp
  have k: "pivotParameterId exampleChain = pivotParameterId exampleROM"
      "canHandleDynamicData exampleChain = canHandleDynamicData exampleROM"
      "segment exampleChain = segment exampleROM" "pickled exampleChain = pickled exampleROM"
      "assemblerDict exampleChain = assemblerDict exampleROM"
    by (simp_all add: exampleChain_eq)
  have kc: "supervisedContainer exampleChain = ?b1 # [?b2]" by (simp add: exampleChain_eq)
  have kr: "setAssembledObjects exampleCollaborators (assemblerDict exampleROM) (b_reset exampleCollaborators ?b1)
            = setAssembledObjects exampleCollaborators (assemblerDict exampleROM) exampleBackend"
    by (simp add: exampleCollaborators_def exampleBackend_def)
  have k1: "[?b2] = [] \<or> (\<not> segment exampleROM \<and> \<not> canHandleDynamicData exampleROM
                \<and> list_ex isList (map snd dynamicSet))"
    using d by (simp add: exampleROM_def)
  have e: "evaluate exampleCollaborators
         (stateOf (train exampleCollaborators exampleROM (DataArg (DictIn dynamicSet)))) (DictIn staticSet)
       = Inr [(''time'', Array [0, 0, 1, 1]), (''x'', Array [5, 6, 5, 6]), (''y'', Array [1, 3, 2, 4])]"
    using exampleChain_eq
    by (simp add: exampleChain_def evaluate_def exampleROM_def exampleCollaborators_def
          np_append_def np_atleast_1d_def)
  show ?thesis
    using reset_then_train_equivalent [OF s f sc sr a s1]
          reset_then_train_equivalent [OF k f kc kr a k1] f sc kc d e
    by simp
qed

text \<open>
  C7 as stated fails: \<open>reset\<close> keeps the chain built by an earlier time-dependent
  training, a static training then trains its first instance only, and \<open>evaluate\<close> runs
  the remaining untrained instances too.
\<close>

theorem reset_then_train_equivalent_counterexample:
  "amITrained exampleChain
   \<and> evaluate exampleCollaborators
         (stateOf (train exampleCollaborators (reset exampleCollaborators exampleChain)
            (DataArg (DictIn staticSet)))) (DictIn staticSet)
       \<noteq> evaluate exampleCollaborators
           (stateOf (train exampleCollaborators exampleROM (DataArg (DictIn staticSet)))) (DictIn staticSet)
   \<and> evaluate exampleCollaborators
         (stateOf (train exampleCollaborators (reset exampleCollaborators exampleChain)
            (DataArg (DictIn staticSet)))) (DictIn staticSet)
       = Inl (Collaborator ''run'')
   \<and> evaluate exampleCollaborators
         (stateOf (train exampleCollaborators exampleROM (DataArg (DictIn staticSet)))) (DictIn staticSet)
       = Inr [(''x'', Array [5, 6]), (''y'', Array [7, 8])]"
  by (simp add: exampleChain_eq reset_def evaluate_def ex_defs np_append_def np_atleast_1d_def)

section \<open>The assertion of the linear discriminant analysis classifier\<close>

lemma getSub_inherited:
  assumes "\<forall>s \<in> set inherited. sub_name s \<noteq> n"
  shows "getSub (inherited @ specs) n = getSub specs n"
  using assms by (induction inherited) (simp_all add: getSub_def)

lemma findNodes_defaults:
  assumes "\<forall>n \<in> set names. \<exists>s d. getSub (parsedAgainst p) n = Some s \<and> declared_default s = Some d"
  shows "snd (findNodesAndExtractValues p names) = []
         \<and> map fst (fst (findNodesAndExtractValues p names)) = names"
  using assms
proof (induction names)
  case Nil
  then show ?case by simp
next
  case (Cons n names)
  then obtain s d where "getSub (parsedAgainst p) n = Some s" "declared_default s = Some d" by auto
  moreover have "snd (findNodesAndExtractValues p names) = []
         \<and> map fst (fst (findNodesAndExtractValues p names)) = names"
    using Cons by simp
  ultimately show ?case
    by (cases "findNodesAndExtractValues p names") (simp split: option.splits)
qed

lemma ldaSubs_defaults:
  "\<forall>n \<in> set ldaParameters. \<exists>s d. getSub ldaSubs n = Some s \<and> declared_default s = Some d"
  by (simp add: ldaParameters_def ldaSubs_def getSub_def)

text \<open>
  C10. For every parsed input whose specification is the one
  \<open>getInputSpecification\<close> returns, the inherited part declaring none of the seven
  names, the extraction of the seven parameters in \<open>_handleInput\<close> reports no name as
  not found, whatever sub-nodes the document has: the assertion holds and the settings
  have exactly the seven names.
\<close>

theorem handleInput_assertion_holds:
  assumes "parsedAgainst paramInput = getInputSpecification inherited"
    and "\<forall>s \<in> set inherited. sub_name s \<notin> set ldaParameters"
  shows "snd (findNodesAndExtractValues paramInput ldaParameters) = []
         \<and> (\<exists>settings. handleInput paramInput = Inr settings \<and> map fst settings = ldaParameters)"
proof -
  have "\<forall>n \<in> set ldaParameters. \<exists>s d. getSub (parsedAgainst paramInput) n = Some s \<and> declared_default s = Some d"
  proof
    fix n assume n: "n \<in> set ldaParameters"
    with assms(2) have "\<forall>s \<in> set inherited. sub_name s \<noteq> n" by auto
    then have "getSub (parsedAgainst paramInput) n = getSub ldaSubs n"
      using assms(1) by (simp add: getInputSpecification_def getSub_inherited)
    with ldaSubs_defaults n show "\<exists>s d. getSub (parsedAgainst paramInput) n = Some s \<and> declared_default s = Some d"
      by simp
  qed
  from findNodes_defaults [OF this] show ?thesis
    by (cases "findNodesAndExtractValues paramInput ldaParameters") (simp add: handleInput_def)
qed

theorem handleInput_assertion_holds_witness:
  "parsedAgainst exampleInput
     = getInputSpecification [\<lparr>sub_name = ''Features'', contentType = StringType, declared_default = None\<rparr>]
   \<and> snd (findNodesAndExtractValues exampleInput ldaParameters) = []
   \<and> handleInput exampleInput
       = Inr [(''solver'', PyStr ''lsqr''), (''Shrinkage'', PyNone), (''priors'', PyNone),
              (''n_components'', PyNone), (''store_covariance'', PyBool False),
              (''tol'', PyFloat (1 / 1000)), (''covariance_estimator'', PyNone)]"
proof -
  have h: "parsedAgainst exampleInput
     = getInputSpecification [\<lparr>sub_name = ''Features'', contentType = StringType, declared_default = None\<rparr>]"
      "\<forall>s \<in> set [\<lparr>sub_name = ''Features'', contentType = StringType, declared_default = None\<rparr>].
         sub_name s \<notin> set ldaParameters"
    by (simp_all add: exampleInput_def ldaParameters_def)
  have v: "handleInput exampleInput
       = Inr [(''solver'', PyStr ''lsqr''), (''Shrinkage'', PyNone), (''priors'', PyNone),
              (''n_components'', PyNone), (''store_covariance'', PyBool False),
              (''tol'', PyFloat (1 / 1000)), (''covariance_estimator'', PyNone)]"
    by (simp add: handleInput_def exampleInput_def ldaParameters_def getInputSpecification_def
          ldaSubs_def getSub_def)
  from handleInput_assertion_holds [OF h] show ?thesis using h(1) v by simp
qed

section \<open>Training from another ROM\<close>

text \<open>
  C9 (as amended). When the argument of \<open>train\<close> is a ROM that has the attribute
  \<open>trainingSet\<close> (it has been through \<open>train\<close>), \<open>train\<close> returns without
  calling any collaborator (its outcome is the same for every choice of collaborators, so
  no backend is trained), and the receiver takes the argument's training set, trained
  flag, container and seed and keeps its other attributes; in particular it is trained
  exactly when the argument is.
\<close>

theorem train_with_rom_copies:
  assumes "trainingSet other = Some copied"
  shows "train c self (RomArg other)
           = Returned (self\<lparr>trainingSet := Some copied, amITrained := amITrained other,
                            supervisedContainer := supervisedContainer other, seed := seed other\<rparr>)
         \<and> train c self (RomArg other) = train c' self (RomArg other)
         \<and> amITrained (stateOf (train c self (RomArg other))) = amITrained other"
  using assms by (simp add: train_def)

theorem train_with_rom_copies_witness:
  "trainingSet exampleStatic = Some staticSet \<and> amITrained exampleStatic \<and> \<not> amITrained exampleROM
   \<and> train exampleCollaborators exampleROM (RomArg exampleStatic)
       = Returned (exampleROM\<lparr>trainingSet := Some staticSet, amITrained := True,
                     supervisedContainer := [\<lparr>assembled = [], fitted = [staticSet]\<rparr>], seed := None\<rparr>)
   \<and> trainingSet (reset exampleCollaborators exampleStatic) = Some staticSet
   \<and> \<not> amITrained (reset exampleCollaborators exampleStatic) \<and> amITrained exampleChain
   \<and> \<not> amITrained (stateOf (train exampleCollaborators exampleChain
           (RomArg (reset exampleCollaborators exampleStatic))))"
proof -
  have t: "trainingSet exampleStatic = Some staticSet"
      "trainingSet (reset exampleCollaborators exampleStatic) = Some staticSet"
    by (simp_all add: exampleStatic_eq reset_def)
  have a: "amITrained exampleStatic" "\<not> amITrained exampleROM"
      "\<not> amITrained (reset exampleCollaborators exampleStatic)" "amITrained exampleChain"
    by (simp_all add: exampleStatic_eq exampleChain_eq reset_def exampleROM_def)
  have v: "supervisedContainer exampleStatic = [\<lparr>assembled = [], fitted = [staticSet]\<rparr>]"
      "seed exampleStatic = None"
    by (simp_all add: exampleStatic_eq exampleROM_def)
  show ?thesis
    using train_with_rom_copies [OF t(1), of exampleCollaborators exampleROM exampleCollaborators]
          train_with_rom_copies [OF t(2), of exampleCollaborators exampleChain exampleCollaborators]
          t a v
    by simp
qed

text \<open>
  C9 as stated fails: a ROM that has never been through \<open>train\<close> has no attribute
  \<open>trainingSet\<close>, so line 311 raises before anything is copied, and a trained receiver
  stays trained although the argument is not.
\<close>

theorem train_with_rom_copies_counterexample:
  "trainingSet exampleROM = None \<and> \<not> amITrained exampleROM \<and> amITrained exampleStatic
   \<and> train exampleCollaborators exampleStatic (RomArg exampleROM)
       = Raised (NoAttribute ''trainingSet'') exampleStatic
   \<and> exceptionClass (NoAttribute ''trainingSet'') = AttributeError
   \<and> amITrained (stateOf (train exampleCollaborators exampleStatic (RomArg exampleROM)))
       \<noteq> amITrained exampleROM"
  by (simp add: train_def exampleStatic_eq exampleROM_def)

end
